theory Spec2Isabelle
  imports Main "HOL-Library.Word"
begin

unbundle bit_operations_syntax

section \<open>Stream server\<close>

subsection \<open>Machine types, constants and errors\<close>

type_synonym byte = "8 word"
type_synonym uint8 = "8 word"
type_synonym uint16 = "16 word"
type_synonym uint32 = "32 word"
type_synonym uint64 = "64 word"

text \<open>Stream type.\<close>

definition StSequencer :: uint64 where
  "StSequencer = 1"

text \<open>Commands.\<close>

definition CmdStart :: uint64 where
  "CmdStart = 1"

definition CmdStop :: uint64 where
  "CmdStop = 2"

definition CmdHeader :: uint64 where
  "CmdHeader = 3"

text \<open>Client status.\<close>

definition csStarted :: uint8 where
  "csStarted = 1"

definition csStopped :: uint8 where
  "csStopped = 2"

text \<open>Transaction status.\<close>

definition txNone :: uint8 where
  "txNone = 0"

definition txStarted :: uint8 where
  "txStarted = 1"

definition txCommitting :: uint8 where
  "txCommitting = 2"

text \<open>
  A Go \<open>error\<close> value. \<open>Err m\<close> is \<open>errors.New(m)\<close>; \<open>EOF\<close> and
  \<open>ErrUnexpectedEOF\<close> are the two errors \<open>io.ReadFull\<close> reports on a stream that
  ends; \<open>IOErr m\<close> is any other transport error. A \<open>nil\<close> error is \<open>None\<close> of
  \<open>error option\<close>.
\<close>

datatype error = Err string | EOF | ErrUnexpectedEOF | IOErr string

fun Error :: "error \<Rightarrow> string" where
  "Error (Err m) = m"
| "Error EOF = ''EOF''"
| "Error ErrUnexpectedEOF = ''unexpected EOF''"
| "Error (IOErr m) = m"

text \<open>
  The outcome of a call that may hit a run-time panic (a method call on a nil
  interface): \<open>Ok v\<close> when the call returns \<open>v\<close>, \<open>Panic\<close> when it does not.
\<close>

datatype 'a result = Ok 'a | Panic string

subsection \<open>Data\<close>

text \<open>
  A \<open>net.Conn\<close> is identified by its remote address. What the server hands to the
  \<open>Write\<close> of each connection is collected, in order, in a \<open>wire\<close>.
\<close>

datatype Conn = Conn (RemoteAddr: string)

type_synonym wire = "Conn \<Rightarrow> byte list"

record txStream =
  tx_status :: uint8
  txAfterEntry :: uint64

record clientStream =
  conn :: "Conn option"
  status :: uint8

text \<open>
  The server. The listener \<open>ln\<close> and the file stream \<open>fs\<close> hold no data that the
  functions below read; they are left out of the record.
\<close>

record ServerStream =
  port :: uint16
  fileName :: string
  streamType :: uint64
  clients :: "string \<rightharpoonup> clientStream"
  lastEntry :: uint64
  tx :: txStream

record ResultEntry =
  isEntry :: uint8
  length_r :: uint32
  errorNum :: uint32
  errorStr :: "byte list"

text \<open>The zero values of the two structs (\<open>ResultEntry{}\<close>, and a map miss).\<close>

definition ResultEntry_zero :: ResultEntry where
  "ResultEntry_zero = \<lparr>isEntry = 0, length_r = 0, errorNum = 0, errorStr = []\<rparr>"

definition clientStream_zero :: clientStream where
  "clientStream_zero = \<lparr>conn = None, status = 0\<rparr>"

text \<open>\<open>s.clients[clientId]\<close>: a missing key reads as the zero value.\<close>

definition clients_at :: "ServerStream \<Rightarrow> string \<Rightarrow> clientStream" where
  "clients_at s clientId =
     (case clients s clientId of None \<Rightarrow> clientStream_zero | Some c \<Rightarrow> c)"

subsection \<open>Big-endian integers and byte strings\<close>

text \<open>\<open>[]byte(str)\<close>.\<close>

definition bytes :: "string \<Rightarrow> byte list" where
  "bytes str = map of_char str"

text \<open>\<open>binary.BigEndian.AppendUint32\<close>, \<open>Uint32\<close>, \<open>PutUint64\<close> and \<open>Uint64\<close>.\<close>

definition AppendUint32 :: "byte list \<Rightarrow> uint32 \<Rightarrow> byte list" where
  "AppendUint32 b v =
     b @ [ucast (drop_bit 24 v), ucast (drop_bit 16 v), ucast (drop_bit 8 v), ucast v]"

text \<open>Both decoders are called on slices of exactly 4 and 8 bytes.\<close>

definition Uint32 :: "byte list \<Rightarrow> uint32" where
  "Uint32 b =
     ucast (b ! 3) OR push_bit 8 (ucast (b ! 2)) OR push_bit 16 (ucast (b ! 1))
       OR push_bit 24 (ucast (b ! 0))"

definition PutUint64 :: "uint64 \<Rightarrow> byte list" where
  "PutUint64 v =
     [ucast (drop_bit 56 v), ucast (drop_bit 48 v), ucast (drop_bit 40 v),
      ucast (drop_bit 32 v), ucast (drop_bit 24 v), ucast (drop_bit 16 v),
      ucast (drop_bit 8 v), ucast v]"

definition Uint64 :: "byte list \<Rightarrow> uint64" where
  "Uint64 b =
     ucast (b ! 7) OR push_bit 8 (ucast (b ! 6)) OR push_bit 16 (ucast (b ! 5))
       OR push_bit 24 (ucast (b ! 4)) OR push_bit 32 (ucast (b ! 3))
       OR push_bit 40 (ucast (b ! 2)) OR push_bit 48 (ucast (b ! 1))
       OR push_bit 56 (ucast (b ! 0))"

subsection \<open>Construction and the internal interface\<close>

text \<open>
  \<open>New\<close>. \<open>PrepareStreamFile\<close> is not part of the sources; the error it returns is
  the parameter \<open>prepErr\<close>. The server value is returned in both cases.
\<close>

definition New :: "uint16 \<Rightarrow> string \<Rightarrow> error option \<Rightarrow> ServerStream \<times> error option" where
  "New port' fileName' prepErr =
     (let s = \<lparr>port = port', fileName = fileName', streamType = StSequencer,
                clients = Map.empty, lastEntry = 0,
                tx = \<lparr>tx_status = txNone, txAfterEntry = 0\<rparr>\<rparr>
      in case prepErr of Some err \<Rightarrow> (s, Some err) | None \<Rightarrow> (s, None))"

definition StartStreamTx :: "ServerStream \<Rightarrow> ServerStream \<times> error option" where
  "StartStreamTx s =
     (let s1 = s\<lparr>tx := (tx s)\<lparr>tx_status := txStarted\<rparr>\<rparr>;
          s2 = s1\<lparr>tx := (tx s1)\<lparr>txAfterEntry := lastEntry s1\<rparr>\<rparr>
      in (s2, None))"

definition AddStreamEntry ::
  "ServerStream \<Rightarrow> uint32 \<Rightarrow> byte list \<Rightarrow> ServerStream \<times> uint64 \<times> error option" where
  "AddStreamEntry s etype data =
     (let s1 = s\<lparr>lastEntry := lastEntry s + 1\<rparr>
      in (s1, lastEntry s1, None))"

definition CommitStreamTx :: "ServerStream \<Rightarrow> ServerStream \<times> error option" where
  "CommitStreamTx s =
     (let s1 = s\<lparr>tx := (tx s)\<lparr>tx_status := txCommitting\<rparr>\<rparr>;
          s2 = s1\<lparr>tx := (tx s1)\<lparr>tx_status := txNone\<rparr>\<rparr>
      in (s2, None))"

text \<open>
  Successive calls of \<open>AddStreamEntry\<close>, one per argument pair, threading the server
  through; the entry numbers returned, in call order, and the final server.
\<close>

fun AddStreamEntry_calls ::
  "ServerStream \<Rightarrow> (uint32 \<times> byte list) list \<Rightarrow> uint64 list \<times> ServerStream" where
  "AddStreamEntry_calls s [] = ([], s)"
| "AddStreamEntry_calls s ((etype, data) # rest) =
     (case AddStreamEntry s etype data of
        (s1, entry, err) \<Rightarrow>
          (case AddStreamEntry_calls s1 rest of (entries, s2) \<Rightarrow> (entry # entries, s2)))"

subsection \<open>Result entries\<close>

definition encodeResultEntryToBinary :: "ResultEntry \<Rightarrow> byte list" where
  "encodeResultEntryToBinary e =
     (let be = [isEntry e];
          be = AppendUint32 be (length_r e);
          be = AppendUint32 be (errorNum e);
          be = be @ errorStr e
      in be)"

definition DecodeBinaryToResultEntry :: "byte list \<Rightarrow> ResultEntry \<times> error option" where
  "DecodeBinaryToResultEntry b =
     (let e = ResultEntry_zero in
      if length b < 10 then (e, Some (Err ''invalid binary result entry''))
      else
        let e = e\<lparr>isEntry := b ! 0\<rparr>;
            e = e\<lparr>length_r := Uint32 (take 4 (drop 1 b))\<rparr>;
            e = e\<lparr>errorNum := Uint32 (take 4 (drop 5 b))\<rparr>;
            e = e\<lparr>errorStr := drop 9 b\<rparr>
        in if (word_of_nat (length (errorStr e)) :: uint32) \<noteq> length_r e - 1 - 4 - 4
           then (e, Some (Err ''error decoding binary result entry''))
           else (e, None))"

text \<open>
  \<open>sendResultEntry\<close>. A failing \<open>Write\<close> is only printed and \<open>nil\<close> is returned
  all the same, so the wire records the bytes handed to the connection. Flushing a
  writer over a nil connection is a nil-interface call.
\<close>

definition sendResultEntry ::
  "ServerStream \<Rightarrow> wire \<Rightarrow> uint32 \<Rightarrow> string \<Rightarrow> string \<Rightarrow> (wire \<times> error option) result" where
  "sendResultEntry s w errorNum' errorStr' clientId =
     (let byteSlice = bytes errorStr';
          entry = \<lparr>isEntry = 0xff,
                   length_r = word_of_nat (length byteSlice + 1 + 4 + 4),
                   errorNum = errorNum',
                   errorStr = byteSlice\<rparr>;
          binaryEntry = encodeResultEntryToBinary entry
      in case conn (clients_at s clientId) of
           None \<Rightarrow> Panic ''invalid memory address or nil pointer dereference''
         | Some c \<Rightarrow> Ok (w(c := w c @ binaryEntry), None))"

subsection \<open>Commands\<close>

text \<open>
  \<open>processCommand\<close>. \<open>client\<close> is a copy of the map entry; the switch assigns to the
  copy and to \<open>err\<close>; \<open>errNum\<close> is initialised to 0 and passed on. The server
  \<open>s\<close> itself is never assigned.
\<close>

definition processCommand ::
  "ServerStream \<Rightarrow> wire \<Rightarrow> uint64 \<Rightarrow> string \<Rightarrow> (ServerStream \<times> wire \<times> error option) result" where
  "processCommand s w command clientId =
     (let client = clients_at s clientId;
          errNum = (0 :: uint32);
          (client, err) =
            (if command = CmdStart then
               (if status client \<noteq> csStopped
                then (client, Some (Err ''client already started''))
                else (client\<lparr>status := csStarted\<rparr>, None))
             else if command = CmdStop then
               (if status client \<noteq> csStarted
                then (client, Some (Err ''client already stopped''))
                else (client\<lparr>status := csStopped\<rparr>, None))
             else if command = CmdHeader then
               (if status client \<noteq> csStopped
                then (client, Some (Err ''header command not allowed''))
                else (client, None))
             else (client, Some (Err ''invalid command'')));
          errStr = (case err of Some e \<Rightarrow> Error e | None \<Rightarrow> ''OK'')
      in case sendResultEntry s w errNum errStr clientId of
           Panic m \<Rightarrow> Panic m
         | Ok (w', err') \<Rightarrow> Ok (s, w', err'))"

subsection \<open>Connections\<close>

text \<open>
  The bytes a client sends before it closes its side are the list \<open>inp\<close>.
  \<open>readFullUint64\<close> takes 8 of them, or reports the end of the stream as
  \<open>io.ReadFull\<close> does.
\<close>

definition readFullUint64 :: "byte list \<Rightarrow> error + (uint64 \<times> byte list)" where
  "readFullUint64 inp =
     (if inp = [] then Inl EOF
      else if length inp < 8 then Inl ErrUnexpectedEOF
      else Inr (Uint64 (take 8 inp), drop 8 inp))"

text \<open>
  One pass through the body of the loop of \<open>handleConnection\<close>: \<open>Return\<close> where the
  source returns (the deferred \<open>conn.Close()\<close> then closes the connection),
  \<open>Continue\<close> where it goes round again.
\<close>

datatype ctl = Continue | Return

definition handleConnection_body ::
  "ServerStream \<Rightarrow> wire \<Rightarrow> string \<Rightarrow> byte list \<Rightarrow>
     (ServerStream \<times> wire \<times> byte list \<times> ctl) result" where
  "handleConnection_body s w clientId inp =
     (case readFullUint64 inp of
        Inl err \<Rightarrow> Ok (s, w, inp, Return)
      | Inr (command, inp1) \<Rightarrow>
          (case readFullUint64 inp1 of
             Inl err \<Rightarrow> Ok (s, w, inp1, Return)
           | Inr (st, inp2) \<Rightarrow>
               if st \<noteq> streamType s then Ok (s, w, inp2, Return)
               else
                 (case processCommand s w command clientId of
                    Panic m \<Rightarrow> Panic m
                  | Ok (s', w', err) \<Rightarrow>
                      (case err of
                         Some e \<Rightarrow> Ok (s', w', inp2, Return)
                       | None \<Rightarrow> Ok (s', w', inp2, Continue)))))"

function handleConnection_loop ::
  "ServerStream \<Rightarrow> wire \<Rightarrow> string \<Rightarrow> byte list \<Rightarrow> (ServerStream \<times> wire) result" where
  "handleConnection_loop s w clientId inp =
     (case handleConnection_body s w clientId inp of
        Panic m \<Rightarrow> Panic m
      | Ok (s', w', inp', Return) \<Rightarrow> Ok (s', w')
      | Ok (s', w', inp', Continue) \<Rightarrow> handleConnection_loop s' w' clientId inp')"
  by pat_completeness auto
termination
  by (relation "measure (\<lambda>(s, w, clientId, inp). length inp)")
     (auto simp: handleConnection_body_def readFullUint64_def
           split: if_splits sum.splits prod.splits result.splits option.splits)

declare handleConnection_loop.simps [simp del]

text \<open>
  \<open>handleConnection\<close>: the connection is entered in the client table as stopped,
  then the loop runs.
\<close>

definition handleConnection_register :: "ServerStream \<Rightarrow> Conn \<Rightarrow> ServerStream" where
  "handleConnection_register s c =
     (let clientId = RemoteAddr c;
          client = \<lparr>conn = Some c, status = csStopped\<rparr>
      in s\<lparr>clients := (clients s)(clientId \<mapsto> client)\<rparr>)"

definition handleConnection ::
  "ServerStream \<Rightarrow> wire \<Rightarrow> Conn \<Rightarrow> byte list \<Rightarrow> (ServerStream \<times> wire) result" where
  "handleConnection s w c inp =
     handleConnection_loop (handleConnection_register s c) w (RemoteAddr c) inp"

text \<open>
  The server states that arise while the server runs: the one \<open>New\<close> returns, and
  from any of them the one left by a connection being accepted, by a command of any
  connection being processed, and by each call of the internal interface. The handlers
  of different connections interleave at these steps.
\<close>

inductive reachable :: "ServerStream \<Rightarrow> bool" where
  reach_New: "reachable (fst (New port' fileName' prepErr))"
| reach_accept: "reachable s \<Longrightarrow> reachable (handleConnection_register s c)"
| reach_command:
    "reachable s \<Longrightarrow> processCommand s w command clientId = Ok (s', w', err)
       \<Longrightarrow> reachable s'"
| reach_StartStreamTx: "reachable s \<Longrightarrow> reachable (fst (StartStreamTx s))"
| reach_AddStreamEntry: "reachable s \<Longrightarrow> reachable (fst (AddStreamEntry s etype data))"
| reach_CommitStreamTx: "reachable s \<Longrightarrow> reachable (fst (CommitStreamTx s))"

section \<open>Stream client (streamclient.go)\<close>

text \<open>
  The client's side of a \<open>net.Conn\<close>: the peer's address, the bytes written so far,
  and the error its \<open>Write\<close> reports, if it fails. A nil connection is \<open>None\<close> of
  \<open>DialConn option\<close>.
\<close>

record DialConn =
  remote :: string
  sent :: "byte list"
  wr_err :: "error option"

text \<open>
  The outcome of a client call: it returns, it panics, or it blocks for ever on a
  channel that nothing is sent on.
\<close>

datatype 'a outcome = Returns 'a | Panics string | Blocks

text \<open>
  The client. A channel is the list of the values that are or will be sent on it, in
  order; receiving takes the first and blocks on the empty list. \<open>HeaderEntry\<close> is
  declared outside the sources and is the type parameter \<open>'h\<close>; the \<open>entries\<close>
  channel and \<open>entriesDef\<close> are not read by the functions below and are left out.
\<close>

record 'h StreamClient =
  c_server :: string
  c_streamType :: uint64
  c_conn :: "DialConn option"
  c_id :: string
  FromEntry :: uint64
  Header :: 'h
  results :: "ResultEntry list"
  headers :: "'h list"

text \<open>
  Modelled from the spec: the constant \<open>CmdErrOK\<close> is declared outside the sources;
  the spec gives "\<open>error_num\<close>: 32-bit unsigned; 0 means OK". The command ids
  \<open>CmdStart\<close>, \<open>CmdStop\<close> and \<open>CmdHeader\<close> are the server's, above; a
  \<open>Command\<close> is the 64-bit value that is written to the connection.
\<close>

definition CmdErrOK :: uint32 where
  "CmdErrOK = 0"

definition nil_deref :: string where
  "nil_deref = ''invalid memory address or nil pointer dereference''"

text \<open>\<open>conn.Write(buffer)\<close> on a connection that is not nil.\<close>

definition conn_Write :: "DialConn \<Rightarrow> byte list \<Rightarrow> DialConn \<times> error option" where
  "conn_Write cn buffer =
     (case wr_err cn of
        Some e \<Rightarrow> (cn, Some e)
      | None \<Rightarrow> (cn\<lparr>sent := sent cn @ buffer\<rparr>, None))"

text \<open>
  \<open>writeFullUint64\<close>. On an error the arguments of the log call are evaluated first,
  among them \<open>conn.RemoteAddr()\<close>, a method call on \<open>conn\<close>.
\<close>

definition writeFullUint64 ::
  "uint64 \<Rightarrow> DialConn option \<Rightarrow> (DialConn option \<times> error option) outcome" where
  "writeFullUint64 v cn =
     (let buffer = PutUint64 v;
          (cn', err) =
            (case cn of
               Some k \<Rightarrow> (case conn_Write k buffer of (k', e) \<Rightarrow> (Some k', e))
             | None \<Rightarrow> (None, Some (Err ''error nil connection'')))
      in case err of
           Some e \<Rightarrow>
             (case cn' of
                None \<Rightarrow> Panics nil_deref
              | Some k \<Rightarrow> Returns (cn', Some e))
         | None \<Rightarrow> Returns (cn', None))"

definition getResult :: "'h StreamClient \<Rightarrow> uint64 \<Rightarrow> ('h StreamClient \<times> ResultEntry) option" where
  "getResult c cmd =
     (case results c of
        [] \<Rightarrow> None
      | r # rs \<Rightarrow> Some (c\<lparr>results := rs\<rparr>, r))"

definition getHeader :: "'h StreamClient \<Rightarrow> ('h StreamClient \<times> 'h) option" where
  "getHeader c =
     (case headers c of
        [] \<Rightarrow> None
      | h # hs \<Rightarrow> Some (c\<lparr>headers := hs\<rparr>, h))"

text \<open>The part of \<open>ExecCommand\<close> after the command framing has been written.\<close>

definition ExecCommand_result ::
  "'h StreamClient \<Rightarrow> uint64 \<Rightarrow> ('h StreamClient \<times> error option) outcome" where
  "ExecCommand_result c cmd =
     (case getResult c cmd of
        None \<Rightarrow> Blocks
      | Some (c1, r) \<Rightarrow>
          if errorNum r \<noteq> CmdErrOK then Returns (c1, Some (Err ''result command error''))
          else if cmd = CmdHeader then
            (case getHeader c1 of
               None \<Rightarrow> Blocks
             | Some (c2, h) \<Rightarrow> Returns (c2\<lparr>Header := h\<rparr>, None))
          else Returns (c1, None))"

definition ExecCommand ::
  "'h StreamClient \<Rightarrow> uint64 \<Rightarrow> ('h StreamClient \<times> error option) outcome" where
  "ExecCommand c cmd =
     (if cmd < CmdStart \<or> cmd > CmdHeader then Returns (c, Some (Err ''invalid command''))
      else
        case writeFullUint64 cmd (c_conn c) of
          Panics m \<Rightarrow> Panics m
        | Blocks \<Rightarrow> Blocks
        | Returns (cn1, Some err) \<Rightarrow> Returns (c\<lparr>c_conn := cn1\<rparr>, Some err)
        | Returns (cn1, None) \<Rightarrow>
            (case writeFullUint64 (c_streamType c) cn1 of
               Panics m \<Rightarrow> Panics m
             | Blocks \<Rightarrow> Blocks
             | Returns (cn2, Some err) \<Rightarrow> Returns (c\<lparr>c_conn := cn2\<rparr>, Some err)
             | Returns (cn2, None) \<Rightarrow>
                 if cmd = CmdStart then
                   (case writeFullUint64 (FromEntry c) cn2 of
                      Panics m \<Rightarrow> Panics m
                    | Blocks \<Rightarrow> Blocks
                    | Returns (cn3, Some err) \<Rightarrow> Returns (c\<lparr>c_conn := cn3\<rparr>, Some err)
                    | Returns (cn3, None) \<Rightarrow> ExecCommand_result (c\<lparr>c_conn := cn3\<rparr>) cmd)
                 else ExecCommand_result (c\<lparr>c_conn := cn2\<rparr>) cmd))"

section \<open>Properties\<close>

subsection \<open>Big-endian encoding\<close>

lemma length_PutUint64: "length (PutUint64 v) = 8"
  by (simp add: PutUint64_def)

lemma Uint32_AppendUint32: "Uint32 (AppendUint32 [] v) = v"
  unfolding Uint32_def AppendUint32_def
  apply simp
  apply (rule bit_word_eqI)
  subgoal for n
    apply (cases "n < 8"; cases "n < 16"; cases "n < 24")
    apply (auto simp: bit_simps)
    done
  done

lemma Uint64_PutUint64: "Uint64 (PutUint64 v) = v"
  unfolding Uint64_def PutUint64_def
  apply simp
  apply (rule bit_word_eqI)
  subgoal for n
    apply (cases "n < 8"; cases "n < 16"; cases "n < 24"; cases "n < 32";
           cases "n < 40"; cases "n < 48"; cases "n < 56")
    apply (auto simp: bit_simps)
    done
  done

lemma readFullUint64_PutUint64: "readFullUint64 (PutUint64 v @ rest) = Inr (v, rest)"
  using Uint64_PutUint64 [of v]
  by (simp add: readFullUint64_def length_PutUint64) (simp add: PutUint64_def)

subsection \<open>Entry numbers\<close>

lemma AddStreamEntry_calls_from:
  "fst (AddStreamEntry_calls s args) =
     map (\<lambda>n. lastEntry s + word_of_nat (n + 1)) [0..<length args]"
proof (induction args arbitrary: s)
  case Nil
  show ?case by simp
next
  case (Cons a rest)
  obtain etype data where a: "a = (etype, data)" by (cases a)
  let ?s1 = "s\<lparr>lastEntry := lastEntry s + 1\<rparr>"
  have step: "fst (AddStreamEntry_calls s (a # rest)) =
                (lastEntry s + 1) # fst (AddStreamEntry_calls ?s1 rest)"
    by (simp add: a AddStreamEntry_def Let_def split: prod.splits)
  have tl: "fst (AddStreamEntry_calls ?s1 rest) =
              map (\<lambda>n. lastEntry s + word_of_nat (Suc n + 1)) [0..<length rest]"
    by (simp add: Cons.IH add.assoc add.commute)
  have "[0..<length (a # rest)] = 0 # map Suc [0..<length rest]"
    by (simp add: upt_conv_Cons map_Suc_upt del: upt_Suc)
  then show ?case
    by (simp add: step tl comp_def del: upt_Suc)
qed

text \<open>
  C1, as the code has it. On a server just returned by \<open>New\<close>, the call number
  \<open>n + 1\<close> of \<open>AddStreamEntry\<close> returns the entry number \<open>n + 1\<close> (in 64 bits):
  the numbers handed out are 1, 2, 3, ..., not 0, 1, 2, ..., because \<open>lastEntry\<close>
  is incremented before it is returned.
\<close>

theorem AddStreamEntry_numbers_from_one:
  "fst (AddStreamEntry_calls (fst (New port' fileName' prepErr)) args) =
     map (\<lambda>n. word_of_nat (n + 1)) [0..<length args]"
  by (simp add: AddStreamEntry_calls_from New_def Let_def split: option.splits del: upt_Suc)

text \<open>C1 as stated fails at the first call: it returns 1, not 0.\<close>

theorem AddStreamEntry_first_call_counterexample:
  "fst (AddStreamEntry_calls (fst (New 6900 ''datastream.bin'' None)) [(1, [])]) ! 0 \<noteq> 0"
  by (simp add: New_def AddStreamEntry_def Let_def)

subsection \<open>Transactions\<close>

text \<open>
  C5, as the code has it. \<open>StartStreamTx\<close> checks no state: in every transaction
  status, also while an operation is open, it returns no error, sets the status to
  \<open>txStarted\<close> and overwrites \<open>txAfterEntry\<close> with the current \<open>lastEntry\<close>; every
  other field of the server is left as it was.
\<close>

theorem StartStreamTx_always_restarts:
  "StartStreamTx s =
     (s\<lparr>tx := \<lparr>tx_status = txStarted, txAfterEntry = lastEntry s\<rparr>\<rparr>, None)"
  by (simp add: StartStreamTx_def Let_def)

text \<open>
  C5 as stated fails on the server left by \<open>New\<close>, \<open>StartStreamTx\<close> and one
  \<open>AddStreamEntry\<close>: its transaction is open, a second \<open>StartStreamTx\<close> returns no
  error and moves \<open>txAfterEntry\<close> from 0 to 1.
\<close>

theorem StartStreamTx_open_tx_counterexample:
  "tx_status (tx (fst (AddStreamEntry (fst (StartStreamTx
      (fst (New 6900 ''datastream.bin'' None)))) 1 []))) \<noteq> txNone \<and>
   snd (StartStreamTx (fst (AddStreamEntry (fst (StartStreamTx
      (fst (New 6900 ''datastream.bin'' None)))) 1 []))) = None \<and>
   txAfterEntry (tx (fst (StartStreamTx (fst (AddStreamEntry (fst (StartStreamTx
      (fst (New 6900 ''datastream.bin'' None)))) 1 []))))) \<noteq>
   txAfterEntry (tx (fst (AddStreamEntry (fst (StartStreamTx
      (fst (New 6900 ''datastream.bin'' None)))) 1 [])))"
  by (simp add: New_def StartStreamTx_def AddStreamEntry_def Let_def txNone_def txStarted_def)

subsection \<open>Commands and connections\<close>

lemma sendResultEntry_registered:
  "clients s clientId = Some client \<Longrightarrow> conn client = Some c \<Longrightarrow>
   sendResultEntry s w n str clientId =
     Ok (w(c := w c @ encodeResultEntryToBinary
           \<lparr>isEntry = 0xff, length_r = word_of_nat (length str) + 9, errorNum = n,
            errorStr = bytes str\<rparr>), None)"
  by (simp add: sendResultEntry_def clients_at_def Let_def bytes_def add.commute)

text \<open>No command changes the server, and \<open>processCommand\<close> never returns an error.\<close>

lemma processCommand_keeps_server:
  "processCommand s w command clientId = Ok (s', w', err) \<Longrightarrow> s' = s \<and> err = None"
  by (auto simp: processCommand_def sendResultEntry_def Let_def
           split: if_splits result.splits option.splits prod.splits)

lemma handleConnection_loop_end: "handleConnection_loop s w clientId [] = Ok (s, w)"
  by (subst handleConnection_loop.simps) (simp add: handleConnection_body_def readFullUint64_def)

lemma handleConnection_loop_command:
  "processCommand s w command clientId = Ok (s, w', None) \<Longrightarrow>
   handleConnection_loop s w clientId (PutUint64 command @ PutUint64 (streamType s) @ rest) =
     handleConnection_loop s w' clientId rest"
  by (subst handleConnection_loop.simps)
     (simp add: handleConnection_body_def readFullUint64_PutUint64)

lemma handleConnection_loop_keeps_server:
  "handleConnection_loop s w clientId inp = Ok (s', w') \<Longrightarrow> s' = s"
proof (induction s w clientId inp rule: handleConnection_loop.induct)
  case (1 s w clientId inp)
  show ?case
  proof (cases "handleConnection_body s w clientId inp")
    case (Panic m)
    with "1.prems" show ?thesis
      by (subst (asm) handleConnection_loop.simps) simp
  next
    case (Ok r)
    obtain s1 w1 inp1 k where r: "r = (s1, w1, inp1, k)" by (cases r)
    have s1: "s1 = s"
      using Ok r
      by (auto simp: handleConnection_body_def
               split: sum.splits prod.splits if_splits result.splits option.splits
               dest: processCommand_keeps_server)
    show ?thesis
    proof (cases k)
      case Return
      with "1.prems" Ok r s1 show ?thesis
        by (subst (asm) handleConnection_loop.simps) simp
    next
      case Continue
      have "handleConnection_loop s1 w1 clientId inp1 = Ok (s', w')"
        using "1.prems" Ok r Continue
        by (subst (asm) handleConnection_loop.simps) simp
      with "1.IH" [OF Ok r [symmetric] refl refl Continue] s1 show ?thesis by simp
    qed
  qed
qed

text \<open>
  C3, on the code. A client entered in the table with status stopped sends \<open>Stop\<close>:
  the Result written to its connection carries the text "client already stopped" and
  the \<open>error_num\<close> 0, since \<open>errNum\<close> is never assigned after its initialisation.
\<close>

theorem processCommand_Stop_when_stopped:
  "clients s clientId = Some client \<Longrightarrow> conn client = Some c \<Longrightarrow> status client = csStopped \<Longrightarrow>
   processCommand s w CmdStop clientId =
     Ok (s, w(c := w c @ encodeResultEntryToBinary
              \<lparr>isEntry = 0xff, length_r = 31, errorNum = 0,
               errorStr = bytes ''client already stopped''\<rparr>), None)"
  by (simp add: processCommand_def sendResultEntry_registered clients_at_def Let_def
        CmdStop_def CmdStart_def csStopped_def csStarted_def)

text \<open>The same at a connection just accepted by a new server.\<close>

theorem processCommand_Stop_when_stopped_witness:
  "processCommand
     (handleConnection_register (fst (New 6900 ''datastream.bin'' None)) (Conn ''10.0.0.7:40000''))
     (\<lambda>c. []) CmdStop ''10.0.0.7:40000'' =
   Ok (handleConnection_register (fst (New 6900 ''datastream.bin'' None)) (Conn ''10.0.0.7:40000''),
       (\<lambda>c. [])(Conn ''10.0.0.7:40000'' :=
          [] @ encodeResultEntryToBinary
             \<lparr>isEntry = 0xff, length_r = 31, errorNum = 0,
              errorStr = bytes ''client already stopped''\<rparr>), None)"
  using processCommand_Stop_when_stopped
    [of "handleConnection_register (fst (New 6900 ''datastream.bin'' None)) (Conn ''10.0.0.7:40000'')"
        "''10.0.0.7:40000''" "\<lparr>conn = Some (Conn ''10.0.0.7:40000''), status = csStopped\<rparr>"
        "Conn ''10.0.0.7:40000''" "\<lambda>c. []"]
  by (simp add: handleConnection_register_def Let_def)

text \<open>
  C4, as the code has it. For a connection in the client table, a command id other
  than Start, Stop and Header that arrives with the server's stream type is answered
  with one Result whose text is "invalid command", and the loop goes on to the next
  command: the connection is not closed.
\<close>

theorem unknown_command_is_answered:
  "clients s clientId = Some client \<Longrightarrow> conn client = Some c \<Longrightarrow>
   command \<noteq> CmdStart \<Longrightarrow> command \<noteq> CmdStop \<Longrightarrow> command \<noteq> CmdHeader \<Longrightarrow>
   readFullUint64 inp = Inr (command, inp1) \<Longrightarrow>
   readFullUint64 inp1 = Inr (streamType s, inp2) \<Longrightarrow>
   \<exists>n. handleConnection_body s w clientId inp =
     Ok (s, w(c := w c @ encodeResultEntryToBinary
              \<lparr>isEntry = 0xff, length_r = 24, errorNum = n,
               errorStr = bytes ''invalid command''\<rparr>), inp2, Continue)"
  by (rule exI [of _ 0])
     (simp add: handleConnection_body_def processCommand_def sendResultEntry_registered
        clients_at_def Let_def)

text \<open>The same for command id 99 on a connection just accepted.\<close>

theorem unknown_command_is_answered_witness:
  "\<exists>n. handleConnection_body
     (handleConnection_register (fst (New 6900 ''datastream.bin'' None)) (Conn ''10.0.0.7:40000''))
     (\<lambda>c. []) ''10.0.0.7:40000'' (PutUint64 99 @ PutUint64 1 @ PutUint64 3 @ PutUint64 1) =
   Ok (handleConnection_register (fst (New 6900 ''datastream.bin'' None)) (Conn ''10.0.0.7:40000''),
       (\<lambda>c. [])(Conn ''10.0.0.7:40000'' :=
          [] @ encodeResultEntryToBinary
             \<lparr>isEntry = 0xff, length_r = 24, errorNum = n,
              errorStr = bytes ''invalid command''\<rparr>),
       PutUint64 3 @ PutUint64 1, Continue)"
  using unknown_command_is_answered
    [of "handleConnection_register (fst (New 6900 ''datastream.bin'' None)) (Conn ''10.0.0.7:40000'')"
        "''10.0.0.7:40000''" "\<lparr>conn = Some (Conn ''10.0.0.7:40000''), status = csStopped\<rparr>"
        "Conn ''10.0.0.7:40000''" 99
        "PutUint64 99 @ PutUint64 1 @ PutUint64 3 @ PutUint64 1"
        "PutUint64 1 @ PutUint64 3 @ PutUint64 1"
        "PutUint64 3 @ PutUint64 1" "\<lambda>c. []"]
  by (simp add: handleConnection_register_def Let_def readFullUint64_PutUint64
        CmdStart_def CmdStop_def CmdHeader_def New_def StSequencer_def)


text \<open>
  C4 as stated fails for command id 99 followed by \<open>Header\<close>: the connection
  receives a Result for the unknown command, and then the Result of the \<open>Header\<close>
  command, which a closed connection would not.
\<close>

theorem unknown_command_counterexample:
  "handleConnection
     (fst (New 6900 ''datastream.bin'' None)) (\<lambda>c. []) (Conn ''10.0.0.7:40000'')
     (PutUint64 99 @ PutUint64 1 @ PutUint64 3 @ PutUint64 1) =
   Ok (handleConnection_register (fst (New 6900 ''datastream.bin'' None)) (Conn ''10.0.0.7:40000''),
       (\<lambda>c. [])(Conn ''10.0.0.7:40000'' :=
          [0xff, 0, 0, 0, 24, 0, 0, 0, 0] @ bytes ''invalid command'' @
          [0xff, 0, 0, 0, 11, 0, 0, 0, 0] @ bytes ''OK''))"
proof -
  let ?c = "Conn ''10.0.0.7:40000''"
  let ?s = "handleConnection_register (fst (New 6900 ''datastream.bin'' None)) ?c"
  let ?w1 = "(\<lambda>c. [])(?c := [0xff, 0, 0, 0, 24, 0, 0, 0, 0] @ bytes ''invalid command'')"
  let ?w2 = "(\<lambda>c. [])(?c := [0xff, 0, 0, 0, 24, 0, 0, 0, 0] @ bytes ''invalid command'' @
               [0xff, 0, 0, 0, 11, 0, 0, 0, 0] @ bytes ''OK'')"
  have st: "streamType ?s = 1"
    by (simp add: handleConnection_register_def New_def StSequencer_def Let_def)
  have p1: "processCommand ?s (\<lambda>c. []) 99 ''10.0.0.7:40000'' = Ok (?s, ?w1, None)"
    by (simp add: processCommand_def sendResultEntry_def clients_at_def
          handleConnection_register_def Let_def CmdStart_def CmdStop_def CmdHeader_def
          encodeResultEntryToBinary_def AppendUint32_def bytes_def)
  have p2: "processCommand ?s ?w1 3 ''10.0.0.7:40000'' = Ok (?s, ?w2, None)"
    by (simp add: processCommand_def sendResultEntry_def clients_at_def
          handleConnection_register_def Let_def CmdStart_def CmdStop_def CmdHeader_def
          csStopped_def encodeResultEntryToBinary_def AppendUint32_def bytes_def)
  have "handleConnection_loop ?s (\<lambda>c. []) ''10.0.0.7:40000''
          (PutUint64 99 @ PutUint64 1 @ PutUint64 3 @ PutUint64 1) =
        handleConnection_loop ?s ?w1 ''10.0.0.7:40000'' (PutUint64 3 @ PutUint64 1)"
    using handleConnection_loop_command [OF p1, of "PutUint64 3 @ PutUint64 1"]
    by (simp only: st)
  also have "\<dots> = handleConnection_loop ?s ?w2 ''10.0.0.7:40000'' []"
    using handleConnection_loop_command [OF p2, of "[]"]
    by (simp only: st append_Nil2)
  also have "\<dots> = Ok (?s, ?w2)"
    by (rule handleConnection_loop_end)
  finally show ?thesis
    by (simp add: handleConnection_def)
qed

text \<open>
  C6, on the code. Two \<open>Start\<close> commands on one connection: both are answered with
  the Result "OK" with \<open>error_num\<close> 0, and the client table is as it was after the
  connection was accepted.
\<close>

theorem second_Start_is_accepted:
  "handleConnection s w c
     (PutUint64 CmdStart @ PutUint64 (streamType s) @ PutUint64 CmdStart @ PutUint64 (streamType s)) =
   Ok (handleConnection_register s c,
       w(c := w c @
          encodeResultEntryToBinary
            \<lparr>isEntry = 0xff, length_r = 11, errorNum = 0, errorStr = bytes ''OK''\<rparr> @
          encodeResultEntryToBinary
            \<lparr>isEntry = 0xff, length_r = 11, errorNum = 0, errorStr = bytes ''OK''\<rparr>))"
proof -
  let ?s = "handleConnection_register s c"
  let ?ok = "encodeResultEntryToBinary
               \<lparr>isEntry = 0xff, length_r = 11, errorNum = 0, errorStr = bytes ''OK''\<rparr>"
  have st: "streamType ?s = streamType s"
    by (simp add: handleConnection_register_def Let_def)
  have reg: "clients ?s (RemoteAddr c) = Some \<lparr>conn = Some c, status = csStopped\<rparr>"
    by (simp add: handleConnection_register_def Let_def)
  have p: "processCommand ?s w' CmdStart (RemoteAddr c) = Ok (?s, w'(c := w' c @ ?ok), None)" for w'
    using reg
    by (simp add: processCommand_def sendResultEntry_registered clients_at_def Let_def)
  have "handleConnection_loop ?s w (RemoteAddr c)
          (PutUint64 CmdStart @ PutUint64 (streamType ?s) @ PutUint64 CmdStart @
           PutUint64 (streamType ?s) @ []) =
        handleConnection_loop ?s (w(c := w c @ ?ok)) (RemoteAddr c)
          (PutUint64 CmdStart @ PutUint64 (streamType ?s) @ [])"
    by (rule handleConnection_loop_command [OF p])
  also have "\<dots> = handleConnection_loop ?s ((w(c := w c @ ?ok))(c := (w(c := w c @ ?ok)) c @ ?ok))
                      (RemoteAddr c) []"
    by (rule handleConnection_loop_command [OF p])
  also have "\<dots> = Ok (?s, (w(c := w c @ ?ok))(c := (w(c := w c @ ?ok)) c @ ?ok))"
    by (rule handleConnection_loop_end)
  finally show ?thesis
    by (simp add: handleConnection_def st)
qed

text \<open>
  C7. A command whose stream-type field differs from the server's stream type ends the
  loop at once: the handler returns (the connection is closed), the command is not
  processed, nothing is written to any connection, and the server is unchanged.
\<close>

theorem stream_type_mismatch_closes:
  "readFullUint64 inp = Inr (command, inp1) \<Longrightarrow> readFullUint64 inp1 = Inr (st, inp2) \<Longrightarrow>
   st \<noteq> streamType s \<Longrightarrow>
   handleConnection_body s w clientId inp = Ok (s, w, inp2, Return) \<and>
   handleConnection_loop s w clientId inp = Ok (s, w)"
  by (subst handleConnection_loop.simps) (simp add: handleConnection_body_def)

text \<open>The same for a \<open>Start\<close> sent with stream type 2 to a sequencer server.\<close>

theorem stream_type_mismatch_closes_witness:
  "handleConnection_body
     (handleConnection_register (fst (New 6900 ''datastream.bin'' None)) (Conn ''10.0.0.7:40000''))
     (\<lambda>c. []) ''10.0.0.7:40000'' (PutUint64 1 @ PutUint64 2 @ PutUint64 3 @ PutUint64 1) =
   Ok (handleConnection_register (fst (New 6900 ''datastream.bin'' None)) (Conn ''10.0.0.7:40000''),
       \<lambda>c. [], PutUint64 3 @ PutUint64 1, Return) \<and>
   handleConnection_loop
     (handleConnection_register (fst (New 6900 ''datastream.bin'' None)) (Conn ''10.0.0.7:40000''))
     (\<lambda>c. []) ''10.0.0.7:40000'' (PutUint64 1 @ PutUint64 2 @ PutUint64 3 @ PutUint64 1) =
   Ok (handleConnection_register (fst (New 6900 ''datastream.bin'' None)) (Conn ''10.0.0.7:40000''),
       \<lambda>c. [])"
proof -
  let ?s = "handleConnection_register (fst (New 6900 ''datastream.bin'' None)) (Conn ''10.0.0.7:40000'')"
  have r1: "readFullUint64 (PutUint64 1 @ PutUint64 2 @ PutUint64 3 @ PutUint64 1) =
              Inr (1, PutUint64 2 @ PutUint64 3 @ PutUint64 1)"
    by (rule readFullUint64_PutUint64)
  have r2: "readFullUint64 (PutUint64 2 @ PutUint64 3 @ PutUint64 1) =
              Inr (2, PutUint64 3 @ PutUint64 1)"
    by (rule readFullUint64_PutUint64)
  have ne: "(2 :: uint64) \<noteq> streamType ?s"
    by (simp add: handleConnection_register_def New_def StSequencer_def Let_def)
  show ?thesis
    by (rule stream_type_mismatch_closes [OF r1 r2 ne])
qed

subsection \<open>The client table\<close>

lemma reachable_clients_stopped:
  "reachable s \<Longrightarrow> \<forall>clientId client. clients s clientId = Some client \<longrightarrow> status client = csStopped"
proof (induction rule: reachable.induct)
  case (reach_New port' fileName' prepErr)
  show ?case by (simp add: New_def Let_def split: option.splits)
next
  case (reach_accept s c)
  then show ?case by (simp add: handleConnection_register_def Let_def)
next
  case (reach_command s w command clientId s' w' err)
  then show ?case using processCommand_keeps_server by blast
next
  case (reach_StartStreamTx s)
  then show ?case by (simp add: StartStreamTx_def Let_def)
next
  case (reach_AddStreamEntry s etype data)
  then show ?case by (simp add: AddStreamEntry_def Let_def)
next
  case (reach_CommitStreamTx s)
  then show ?case by (simp add: CommitStreamTx_def Let_def)
qed

text \<open>A whole connection, from accept to close, stays within the reachable states.\<close>

lemma handleConnection_reachable:
  "reachable s \<Longrightarrow> handleConnection s w c inp = Ok (s', w') \<Longrightarrow> reachable s'"
  using handleConnection_loop_keeps_server [of "handleConnection_register s c" w "RemoteAddr c" inp s' w']
  by (auto simp: handleConnection_def intro: reach_accept)

text \<open>
  C9. In every state the server reaches, every record in the client table has status
  \<open>csStopped\<close>: a connection is entered as stopped, and no command writes the table.
\<close>

theorem client_table_status_stays_stopped:
  "reachable s \<Longrightarrow> clients s clientId = Some client \<Longrightarrow> status client = csStopped"
  using reachable_clients_stopped by blast

text \<open>The same for a connection after its \<open>Start\<close> command has been processed.\<close>

theorem client_table_status_stays_stopped_witness:
  "reachable (handleConnection_register (fst (New 6900 ''datastream.bin'' None))
               (Conn ''10.0.0.7:40000'')) \<and>
   clients (handleConnection_register (fst (New 6900 ''datastream.bin'' None))
              (Conn ''10.0.0.7:40000'')) ''10.0.0.7:40000'' =
     Some \<lparr>conn = Some (Conn ''10.0.0.7:40000''), status = 2\<rparr> \<and>
   status \<lparr>conn = Some (Conn ''10.0.0.7:40000''), status = 2\<rparr> = csStopped"
proof -
  let ?c = "Conn ''10.0.0.7:40000''"
  let ?s = "handleConnection_register (fst (New 6900 ''datastream.bin'' None)) ?c"
  have r: "reachable ?s"
    by (rule reach_accept [OF reach_New])
  have l: "clients ?s ''10.0.0.7:40000'' = Some \<lparr>conn = Some ?c, status = 2\<rparr>"
    by (simp add: handleConnection_register_def Let_def csStopped_def)
  obtain w' where p: "processCommand ?s (\<lambda>c. []) CmdStart ''10.0.0.7:40000'' = Ok (?s, w', None)"
    using l
    by (simp add: processCommand_def sendResultEntry_registered clients_at_def Let_def
          csStopped_def)
  have r': "reachable ?s"
    by (rule reach_command [OF r p])
  from client_table_status_stays_stopped [OF r' l] r' l show ?thesis
    by simp
qed

subsection \<open>Result entries\<close>

lemma Uint32_bytes:
  "Uint32 [ucast (drop_bit 24 v), ucast (drop_bit 16 v), ucast (drop_bit 8 v), ucast v] = v"
  using Uint32_AppendUint32 [of v] by (simp add: AppendUint32_def)

text \<open>Results with a text of at least one byte are decoded to what was encoded.\<close>

lemma DecodeBinaryToResultEntry_encode:
  "errorStr e \<noteq> [] \<Longrightarrow> length_r e = word_of_nat (length (errorStr e)) + 9 \<Longrightarrow>
   DecodeBinaryToResultEntry (encodeResultEntryToBinary e) = (e, None)"
  by (cases e)
     (simp add: DecodeBinaryToResultEntry_def encodeResultEntryToBinary_def AppendUint32_def
        Let_def Uint32_bytes ResultEntry_zero_def)

text \<open>
  C2, on the code. The Result with an empty text, whose encoding is 9 bytes long, is
  refused by the decoder: its first check asks for at least 10 bytes.
\<close>

theorem DecodeBinaryToResultEntry_rejects_empty_errorStr:
  "DecodeBinaryToResultEntry
     (encodeResultEntryToBinary \<lparr>isEntry = 0xff, length_r = 9, errorNum = n, errorStr = []\<rparr>)
   = (ResultEntry_zero, Some (Err ''invalid binary result entry''))"
  by (simp add: DecodeBinaryToResultEntry_def encodeResultEntryToBinary_def AppendUint32_def Let_def)

subsection \<open>The client's commands\<close>

lemma writeFullUint64_nil: "writeFullUint64 v None = Panics nil_deref"
  by (simp add: writeFullUint64_def Let_def)

lemma writeFullUint64_ok:
  "wr_err cn = None \<Longrightarrow>
   writeFullUint64 v (Some cn) = Returns (Some (cn\<lparr>sent := sent cn @ PutUint64 v\<rparr>), None)"
  by (simp add: writeFullUint64_def conn_Write_def Let_def)

text \<open>
  C10. On a client whose connection is nil, \<open>ExecCommand\<close> never returns the error
  "error nil connection": for a command id out of range it returns "invalid
  command", and for Start, Stop and Header the first \<open>writeFullUint64\<close> panics on
  \<open>conn.RemoteAddr()\<close> while it builds the log message.
\<close>

theorem ExecCommand_nil_connection_panics:
  "c_conn c = None \<Longrightarrow>
   ExecCommand c cmd \<noteq> Returns (c', Some (Err ''error nil connection'')) \<and>
   (CmdStart \<le> cmd \<and> cmd \<le> CmdHeader \<longrightarrow> ExecCommand c cmd = Panics nil_deref)"
  by (auto simp: ExecCommand_def writeFullUint64_nil)

text \<open>The same for \<open>Header\<close> on a client that was never started.\<close>

theorem ExecCommand_nil_connection_panics_witness:
  "ExecCommand
     \<lparr>c_server = ''127.0.0.1:6900'', c_streamType = 1, c_conn = None, c_id = '''',
      FromEntry = 0, Header = (), results = [], headers = []\<rparr> CmdHeader
   = Panics nil_deref"
  using ExecCommand_nil_connection_panics
    [of "\<lparr>c_server = ''127.0.0.1:6900'', c_streamType = 1, c_conn = None, c_id = '''',
          FromEntry = 0, Header = (), results = [], headers = []\<rparr>" CmdHeader]
  by (simp add: CmdStart_def CmdHeader_def)

text \<open>
  C8, as the code has it. When the command is written to a working connection and the
  Result received for it has a nonzero \<open>error_num\<close>, \<open>ExecCommand\<close> returns the
  error "result command error", whatever text the Result carries.
\<close>

theorem ExecCommand_failure_is_fixed_text:
  "CmdStart \<le> cmd \<Longrightarrow> cmd \<le> CmdHeader \<Longrightarrow> c_conn c = Some cn \<Longrightarrow> wr_err cn = None \<Longrightarrow>
   results c = r # rs \<Longrightarrow> errorNum r \<noteq> CmdErrOK \<Longrightarrow>
   \<exists>c'. ExecCommand c cmd = Returns (c', Some (Err ''result command error''))"
  by (auto simp: ExecCommand_def ExecCommand_result_def getResult_def writeFullUint64_ok)

text \<open>The same for \<open>Stop\<close> answered with the error number 1.\<close>

theorem ExecCommand_failure_is_fixed_text_witness:
  "\<exists>c'. ExecCommand
     \<lparr>c_server = ''127.0.0.1:6900'', c_streamType = 1,
      c_conn = Some \<lparr>remote = ''127.0.0.1:6900'', sent = [], wr_err = None\<rparr>,
      c_id = ''127.0.0.1:40000'', FromEntry = 0, Header = (),
      results = [\<lparr>isEntry = 0xff, length_r = 31, errorNum = 1,
                  errorStr = bytes ''client already stopped''\<rparr>],
      headers = []\<rparr> CmdStop
   = Returns (c', Some (Err ''result command error''))"
  using ExecCommand_failure_is_fixed_text
    [of CmdStop
        "\<lparr>c_server = ''127.0.0.1:6900'', c_streamType = 1,
          c_conn = Some \<lparr>remote = ''127.0.0.1:6900'', sent = [], wr_err = None\<rparr>,
          c_id = ''127.0.0.1:40000'', FromEntry = 0, Header = (),
          results = [\<lparr>isEntry = 0xff, length_r = 31, errorNum = 1,
                      errorStr = bytes ''client already stopped''\<rparr>],
          headers = []\<rparr>"
        "\<lparr>remote = ''127.0.0.1:6900'', sent = [], wr_err = None\<rparr>"
        "\<lparr>isEntry = 0xff, length_r = 31, errorNum = 1,
          errorStr = bytes ''client already stopped''\<rparr>" "[]"]
  by (simp add: CmdStart_def CmdStop_def CmdHeader_def CmdErrOK_def)

text \<open>
  C8 as stated fails for \<open>Stop\<close> answered with error number 1 and the text "client
  already stopped": the error returned reads "result command error".
\<close>

theorem ExecCommand_error_string_counterexample:
  "ExecCommand
     \<lparr>c_server = ''127.0.0.1:6900'', c_streamType = 1,
      c_conn = Some \<lparr>remote = ''127.0.0.1:6900'', sent = [], wr_err = None\<rparr>,
      c_id = ''127.0.0.1:40000'', FromEntry = 0, Header = (),
      results = [\<lparr>isEntry = 0xff, length_r = 31, errorNum = 1,
                  errorStr = bytes ''client already stopped''\<rparr>],
      headers = []\<rparr> CmdStop
   = Returns
       (\<lparr>c_server = ''127.0.0.1:6900'', c_streamType = 1,
         c_conn = Some \<lparr>remote = ''127.0.0.1:6900'', sent = PutUint64 2 @ PutUint64 1,
                        wr_err = None\<rparr>,
         c_id = ''127.0.0.1:40000'', FromEntry = 0, Header = (),
         results = [], headers = []\<rparr>,
        Some (Err ''result command error'')) \<and>
   bytes (Error (Err ''result command error'')) \<noteq> bytes ''client already stopped''"
  by (simp add: ExecCommand_def ExecCommand_result_def getResult_def writeFullUint64_ok
        CmdStart_def CmdStop_def CmdHeader_def CmdErrOK_def bytes_def)

end
